theory Spec2Isabelle
  imports Complex_Main
begin

section \<open>Data model\<close>

text \<open>
  The repository holds two versions of one Express server: \<^verbatim>\<open>src/api/index.js\<close> and
  \<^verbatim>\<open>src/unnamed/part_000\<close>. They share \<^verbatim>\<open>confirmTransactionWithRetries\<close> and the two
  routes \<^verbatim>\<open>/start-monitoring\<close> and \<^verbatim>\<open>/stop-monitoring\<close>; the notification handlers
  differ and are embedded once per file (suffix \<open>_api\<close> and \<open>_part\<close>).

  Public keys and signatures are the base58 strings the code handles.
\<close>

type_synonym pubkey = string

text \<open>Errors the JavaScript can throw: one raised by an external library call (the
  gateway, the key derivation), a \<^verbatim>\<open>ReferenceError\<close> for an unbound identifier and a
  \<^verbatim>\<open>TypeError\<close> for a property read on \<^verbatim>\<open>undefined\<close>.\<close>

datatype js_error = LibraryError string | ReferenceError string | TypeError string

text \<open>What a call leaves behind: a value, \<^verbatim>\<open>undefined\<close> (the end of the body was
  reached), or a thrown error (a rejected promise, for an \<^verbatim>\<open>async\<close> function).\<close>

datatype 'a js_result = Return 'a | Undefined | Throw js_error

text \<open>The instructions the handlers put into a \<^verbatim>\<open>Transaction\<close>, with the arguments in
  the order of the source: \<^verbatim>\<open>SystemProgram.transfer({fromPubkey, toPubkey, lamports})\<close>,
  \<^verbatim>\<open>createAssociatedTokenAccountInstruction(payer, associatedToken, owner, mint)\<close> and
  \<^verbatim>\<open>createTransferInstruction(source, destination, owner, amount, [], TOKEN_PROGRAM_ID)\<close>.\<close>

datatype instruction =
    SystemTransfer pubkey pubkey int
  | CreateAssociatedTokenAccount pubkey pubkey pubkey pubkey
  | TokenTransfer pubkey pubkey pubkey int

type_synonym transaction = "instruction list"

text \<open>The answer of \<^verbatim>\<open>connection.confirmTransaction\<close>: its \<^verbatim>\<open>value.err\<close> is null for a
  transaction that succeeded on chain and holds the failure otherwise.\<close>

datatype confirmation = Confirmation "string option"

text \<open>An element of \<^verbatim>\<open>transactionLog\<close>, with the fields \<^verbatim>\<open>signature\<close>, \<^verbatim>\<open>from\<close>,
  \<^verbatim>\<open>to\<close>, \<^verbatim>\<open>amount\<close> and \<^verbatim>\<open>status\<close> of the source. The amount is the quotient the code
  computes, kept exact (a rational) instead of rounded to a double.\<close>

record log_entry =
  entry_signature :: string
  entry_from :: pubkey
  entry_to :: pubkey
  entry_amount :: rat
  entry_status :: string

datatype console_arg = Str string | Num int | Sol rat | Err js_error | Conf "confirmation js_result"

datatype console_line = ConsoleLog "console_arg list" | ConsoleError "console_arg list"

text \<open>A value of \<^verbatim>\<open>monitoringTasks\<close>. The two stored handlers are closures over the
  source wallet, the destination and the connection, so the entry keeps what they close
  over; \<open>connection\<close> is the reference of the \<^verbatim>\<open>Connection\<close> object.\<close>

record task =
  connection :: nat
  subscriptionId :: nat
  tokenMintAddress :: "string option"
  compromisedWallet :: pubkey
  newSecureWalletPublicKey :: pubkey

datatype listener_kind = AccountChange | TokenAccountChange

record listener =
  listener_connection :: nat
  listener_id :: nat
  listener_account :: pubkey
  listener_kind :: listener_kind

datatype gateway_call =
    OnAccountChange nat pubkey
  | OnTokenAccountChange nat pubkey
  | RemoveAccountChangeListener nat nat
  | RemoveProgramAccountChangeListener nat nat

text \<open>
  The mutable state: the two module-level tables, the console, and what the Ledger
  Gateway has been asked to do (connections created, live listeners, calls made,
  transactions handed to \<^verbatim>\<open>sendTransaction\<close>, number of \<^verbatim>\<open>confirmTransaction\<close> polls) and
  the snapshots pushed to the WebSocket clients.
\<close>

record state =
  transactionLog :: "log_entry list"
  monitoringTasks :: "string \<rightharpoonup> task"
  console :: "console_line list"
  connections :: nat
  listeners :: "listener list"
  gateway_calls :: "gateway_call list"
  submitted :: "transaction list"
  polls :: nat
  broadcasts :: "log_entry list list"

text \<open>
  The external collaborators, as the functions the code calls. Each may throw.
  \<open>confirmTransaction g n sig\<close> is the gateway's answer to the \<open>n\<close>-th poll made so far.
\<close>

record gateway =
  sendTransaction :: "transaction \<Rightarrow> js_error + string"
  confirmTransaction :: "nat \<Rightarrow> string \<Rightarrow> js_error + confirmation"
  getAssociatedTokenAddress :: "pubkey \<Rightarrow> pubkey \<Rightarrow> js_error + pubkey"
  new_PublicKey :: "string \<Rightarrow> js_error + pubkey"
  derive_keypair :: "string list \<Rightarrow> js_error + pubkey"
  clusterApiUrl :: "string \<Rightarrow> js_error + string"

definition console_log :: "console_arg list \<Rightarrow> state \<Rightarrow> state" where
  "console_log args s = s\<lparr>console := console s @ [ConsoleLog args]\<rparr>"

definition console_error :: "console_arg list \<Rightarrow> state \<Rightarrow> state" where
  "console_error args s = s\<lparr>console := console s @ [ConsoleError args]\<rparr>"

text \<open>Modelled from the spec: \<^verbatim>\<open>LAMPORTS_PER_SOL\<close> is imported from \<^verbatim>\<open>@solana/web3.js\<close>
  and defined nowhere in the repository; scenario A of the spec (995000 lamports are
  0.000995 of the SOL-equivalent unit) fixes it at \<open>10\<^sup>9\<close>.\<close>

definition LAMPORTS_PER_SOL :: rat where
  "LAMPORTS_PER_SOL = 1000000000"

section \<open>Confirmation retrier\<close>

text \<open>
  \<^verbatim>\<open>confirmTransactionWithRetries(connection, signature, retries = 3, timeout = 60000)\<close>,
  the same text in both files. The \<^verbatim>\<open>for\<close> loop is the recursion on \<open>attempt\<close>; every
  iteration polls once; leaving the loop without a \<^verbatim>\<open>return\<close> or \<^verbatim>\<open>throw\<close> ends the body,
  so the call yields \<^verbatim>\<open>undefined\<close>.
\<close>

function confirm_loop :: "gateway \<Rightarrow> string \<Rightarrow> int \<Rightarrow> int \<Rightarrow> state \<Rightarrow> confirmation js_result \<times> state" where
  "confirm_loop g sig retries attempt s =
     (if attempt < retries then
        (let s1 = s\<lparr>polls := Suc (polls s)\<rparr> in
         case confirmTransaction g (polls s) sig of
           Inr confirmation \<Rightarrow> (Return confirmation, s1)
         | Inl error \<Rightarrow>
             if attempt = retries - 1 then (Throw error, s1)
             else confirm_loop g sig retries (attempt + 1)
                    (console_log [Str ''Retrying transaction confirmation, attempt '',
                                  Num (attempt + 1), Str ''...''] s1))
      else (Undefined, s))"
  by pat_completeness auto
termination
  by (relation "measure (\<lambda>(g, sig, retries, attempt, s). nat (retries - attempt))") auto

definition confirmTransactionWithRetries :: "gateway \<Rightarrow> string \<Rightarrow> int \<Rightarrow> state \<Rightarrow> confirmation js_result \<times> state" where
  "confirmTransactionWithRetries g sig retries s = confirm_loop g sig retries 0 s"

text \<open>The line printed before the next attempt.\<close>

definition retry_line :: "int \<Rightarrow> console_line" where
  "retry_line n = ConsoleLog [Str ''Retrying transaction confirmation, attempt '', Num n, Str ''...'']"


section \<open>The module's initial state and the WebSocket broadcast\<close>

text \<open>\<^verbatim>\<open>let transactionLog = []; let monitoringTasks = {};\<close> and a gateway nobody has
  called yet.\<close>

definition initial_state :: state where
  "initial_state = \<lparr>transactionLog = [], monitoringTasks = Map.empty, console = [],
     connections = 0, listeners = [], gateway_calls = [], submitted = [], polls = 0,
     broadcasts = []\<rparr>"

text \<open>\<^verbatim>\<open>broadcastTransactionLog\<close> (only in \<^verbatim>\<open>src/api/index.js\<close>) sends the whole log to
  every open client; the state records the snapshot that was sent.\<close>

definition broadcastTransactionLog :: "state \<Rightarrow> state" where
  "broadcastTransactionLog s = s\<lparr>broadcasts := broadcasts s @ [transactionLog s]\<rparr>"

section \<open>Notification handlers\<close>

record account_info =
  lamports :: int

record token_account_info =
  amount :: int
  address :: pubkey

text \<open>
  \<^verbatim>\<open>SystemProgram.transfer\<close> of the library writes the amount as an unsigned 64-bit
  integer and throws when it is negative; a balance a notification can carry is below
  \<open>2\<^sup>6\<^sup>4\<close>, so the upper end of the range is never met.
\<close>

definition SystemProgram_transfer :: "pubkey \<Rightarrow> pubkey \<Rightarrow> int \<Rightarrow> js_error + instruction" where
  "SystemProgram_transfer fromPubkey toPubkey n =
     (if n < 0 then Inl (LibraryError ''lamports out of range'')
      else Inr (SystemTransfer fromPubkey toPubkey n))"

text \<open>
  \<^verbatim>\<open>handleAccountChange\<close> of \<^verbatim>\<open>src/api/index.js\<close> (lines 49-82). The closure variables
  \<^verbatim>\<open>compromisedWallet.publicKey\<close> and \<^verbatim>\<open>newSecureWalletPublicKey\<close> are the arguments
  \<open>wallet\<close> and \<open>dest\<close>. The transaction is built before the \<^verbatim>\<open>try\<close>, so an error of
  the builder leaves the handler; the \<^verbatim>\<open>try\<close> covers the submission, the confirmation
  (default \<open>retries = 3\<close>), the push and the broadcast. An \<^verbatim>\<open>async\<close> function that
  reaches its end resolves with \<^verbatim>\<open>undefined\<close>.
\<close>

definition handleAccountChange_api ::
    "gateway \<Rightarrow> pubkey \<Rightarrow> pubkey \<Rightarrow> account_info \<Rightarrow> state \<Rightarrow> unit js_result \<times> state" where
  "handleAccountChange_api g wallet dest accountInfo s =
     (let lamports = lamports accountInfo in
      if lamports > 0 then
        (let s1 = console_log [Str ''Received '', Sol (of_int lamports / LAMPORTS_PER_SOL),
                               Str '' SOL, transferring to secure wallet...''] s
         in case SystemProgram_transfer wallet dest (lamports - 5000) of
              Inl error \<Rightarrow> (Throw error, s1)
            | Inr instruction \<Rightarrow>
                (let transaction = [instruction];
                     s2 = s1\<lparr>submitted := submitted s1 @ [transaction]\<rparr>
                 in case sendTransaction g transaction of
                      Inl error \<Rightarrow>
                        (Undefined, console_error [Str ''Error transferring funds:'', Err error] s2)
                    | Inr signature \<Rightarrow>
                        (let s3 = console_log [Str ''Transfer transaction sent with signature:'',
                                               Str signature] s2
                         in case confirmTransactionWithRetries g signature 3 s3 of
                              (Throw error, s4) \<Rightarrow>
                                (Undefined,
                                 console_error [Str ''Error transferring funds:'', Err error] s4)
                            | (confirmation, s4) \<Rightarrow>
                                (let s5 = console_log [Str ''Transfer transaction confirmed:'',
                                                       Conf confirmation] s4;
                                     s6 = s5\<lparr>transactionLog := transactionLog s5 @
                                            [\<lparr>entry_signature = signature, entry_from = wallet,
                                              entry_to = dest,
                                              entry_amount = of_int lamports / LAMPORTS_PER_SOL,
                                              entry_status = ''confirmed''\<rparr>]\<rparr>
                                 in (Undefined, broadcastTransactionLog s6)))))
      else (Undefined, s))"

text \<open>
  The \<^verbatim>\<open>catch\<close> block of both handlers of \<^verbatim>\<open>src/unnamed/part_000\<close> (lines 95-100 and
  145-150): it prints the error and then evaluates
  \<^verbatim>\<open>error instanceof SendTransactionError\<close>. The file neither imports nor declares
  \<^verbatim>\<open>SendTransactionError\<close>, so in a module that evaluation throws a
  \<^verbatim>\<open>ReferenceError\<close>, out of the \<^verbatim>\<open>catch\<close> block and so out of the handler.
\<close>

definition catch_part :: "string \<Rightarrow> js_error \<Rightarrow> state \<Rightarrow> unit js_result \<times> state" where
  "catch_part label error s =
     (Throw (ReferenceError ''SendTransactionError is not defined''),
      console_error [Str label, Err error] s)"

text \<open>
  \<^verbatim>\<open>handleAccountChange\<close> of \<^verbatim>\<open>src/unnamed/part_000\<close> (lines 60-102): the fee is
  subtracted first, a non-positive remainder ends the handler (so the builder only ever
  sees a positive amount), and the log entry records the remainder. There is no broadcast.
\<close>

definition handleAccountChange_part ::
    "gateway \<Rightarrow> pubkey \<Rightarrow> pubkey \<Rightarrow> account_info \<Rightarrow> state \<Rightarrow> unit js_result \<times> state" where
  "handleAccountChange_part g wallet dest accountInfo s =
     (let lamports = lamports accountInfo in
      if lamports > 0 then
        (let s1 = console_log [Str ''Received '', Sol (of_int lamports / LAMPORTS_PER_SOL),
                               Str '' SOL, transferring to secure wallet...''] s;
             transactionFee = 5000;
             lamportsToTransfer = lamports - transactionFee
         in if lamportsToTransfer \<le> 0 then
              (Undefined, console_error [Str ''Not enough SOL to cover the transaction fee.''] s1)
            else
              (case SystemProgram_transfer wallet dest lamportsToTransfer of
                 Inl error \<Rightarrow> (Throw error, s1)
               | Inr instruction \<Rightarrow>
                   (let transaction = [instruction];
                        s2 = s1\<lparr>submitted := submitted s1 @ [transaction]\<rparr>
                    in case sendTransaction g transaction of
                         Inl error \<Rightarrow> catch_part ''Error transferring funds:'' error s2
                       | Inr signature \<Rightarrow>
                           (let s3 = console_log [Str ''Transfer transaction sent with signature:'',
                                                  Str signature] s2
                            in case confirmTransactionWithRetries g signature 3 s3 of
                                 (Throw error, s4) \<Rightarrow>
                                   catch_part ''Error transferring funds:'' error s4
                               | (confirmation, s4) \<Rightarrow>
                                   (let s5 = console_log [Str ''Transfer transaction confirmed:'',
                                                          Conf confirmation] s4
                                    in (Undefined,
                                        s5\<lparr>transactionLog := transactionLog s5 @
                                          [\<lparr>entry_signature = signature, entry_from = wallet,
                                            entry_to = dest,
                                            entry_amount = of_int lamportsToTransfer / LAMPORTS_PER_SOL,
                                            entry_status = ''confirmed''\<rparr>]\<rparr>))))))
      else (Undefined, s))"

text \<open>
  The transaction both token handlers build: the account-creation instruction for the
  destination's associated token account, then the transfer of the whole observed amount
  out of the notified token account.
\<close>

definition token_transaction :: "pubkey \<Rightarrow> pubkey \<Rightarrow> pubkey \<Rightarrow> pubkey \<Rightarrow> token_account_info \<Rightarrow> transaction" where
  "token_transaction wallet dest mint associatedTokenAccount accountInfo =
     [CreateAssociatedTokenAccount wallet associatedTokenAccount dest mint,
      TokenTransfer (address accountInfo) associatedTokenAccount wallet (amount accountInfo)]"

text \<open>
  The part of both token handlers before the \<^verbatim>\<open>try\<close> (the closure variable
  \<^verbatim>\<open>tokenMintAddress\<close> is the argument \<open>tokenMint\<close>):
  \<^verbatim>\<open>new PublicKey(tokenMintAddress)\<close> and \<^verbatim>\<open>getAssociatedTokenAddress\<close>. Either may throw,
  and nothing catches it there (\<^verbatim>\<open>new PublicKey(undefined)\<close> throws as well).
\<close>

definition resolve_token_account :: "gateway \<Rightarrow> pubkey \<Rightarrow> string option \<Rightarrow> js_error + (pubkey \<times> pubkey)" where
  "resolve_token_account g dest tokenMint =
     (case tokenMint of
        None \<Rightarrow> Inl (LibraryError ''Invalid public key input'')
      | Some m \<Rightarrow>
         (case new_PublicKey g m of
            Inl error \<Rightarrow> Inl error
          | Inr mint \<Rightarrow>
             (case getAssociatedTokenAddress g mint dest of
                Inl error \<Rightarrow> Inl error
              | Inr associatedTokenAccount \<Rightarrow> Inr (mint, associatedTokenAccount))))"

text \<open>\<^verbatim>\<open>handleTokenAccountChange\<close> of \<^verbatim>\<open>src/api/index.js\<close> (lines 84-131).\<close>

definition handleTokenAccountChange_api ::
    "gateway \<Rightarrow> pubkey \<Rightarrow> pubkey \<Rightarrow> string option \<Rightarrow> token_account_info \<Rightarrow> state \<Rightarrow> unit js_result \<times> state" where
  "handleTokenAccountChange_api g wallet dest tokenMint accountInfo s =
     (let tokenAmount = amount accountInfo in
      if tokenAmount > 0 then
        (let s1 = console_log [Str ''Received '', Num tokenAmount,
                               Str '' tokens, transferring to secure wallet...''] s
         in case resolve_token_account g dest tokenMint of
              Inl error \<Rightarrow> (Throw error, s1)
            | Inr (mint, associatedTokenAccount) \<Rightarrow>
                (let transaction = token_transaction wallet dest mint associatedTokenAccount accountInfo;
                     s2 = s1\<lparr>submitted := submitted s1 @ [transaction]\<rparr>
                 in case sendTransaction g transaction of
                      Inl error \<Rightarrow>
                        (Undefined, console_error [Str ''Error transferring tokens:'', Err error] s2)
                    | Inr signature \<Rightarrow>
                        (let s3 = console_log [Str ''Transfer transaction sent with signature:'',
                                               Str signature] s2
                         in case confirmTransactionWithRetries g signature 3 s3 of
                              (Throw error, s4) \<Rightarrow>
                                (Undefined,
                                 console_error [Str ''Error transferring tokens:'', Err error] s4)
                            | (confirmation, s4) \<Rightarrow>
                                (let s5 = console_log [Str ''Transfer transaction confirmed:'',
                                                       Conf confirmation] s4;
                                     s6 = s5\<lparr>transactionLog := transactionLog s5 @
                                            [\<lparr>entry_signature = signature, entry_from = wallet,
                                              entry_to = dest, entry_amount = of_int tokenAmount,
                                              entry_status = ''confirmed''\<rparr>]\<rparr>
                                 in (Undefined, broadcastTransactionLog s6)))))
      else (Undefined, s))"

text \<open>\<^verbatim>\<open>handleTokenAccountChange\<close> of \<^verbatim>\<open>src/unnamed/part_000\<close> (lines 104-152).\<close>

definition handleTokenAccountChange_part ::
    "gateway \<Rightarrow> pubkey \<Rightarrow> pubkey \<Rightarrow> string option \<Rightarrow> token_account_info \<Rightarrow> state \<Rightarrow> unit js_result \<times> state" where
  "handleTokenAccountChange_part g wallet dest tokenMint accountInfo s =
     (let tokenAmount = amount accountInfo in
      if tokenAmount > 0 then
        (let s1 = console_log [Str ''Received '', Num tokenAmount,
                               Str '' tokens, transferring to secure wallet...''] s
         in case resolve_token_account g dest tokenMint of
              Inl error \<Rightarrow> (Throw error, s1)
            | Inr (mint, associatedTokenAccount) \<Rightarrow>
                (let transaction = token_transaction wallet dest mint associatedTokenAccount accountInfo;
                     s2 = s1\<lparr>submitted := submitted s1 @ [transaction]\<rparr>
                 in case sendTransaction g transaction of
                      Inl error \<Rightarrow> catch_part ''Error transferring tokens:'' error s2
                    | Inr signature \<Rightarrow>
                        (let s3 = console_log [Str ''Transfer transaction sent with signature:'',
                                               Str signature] s2
                         in case confirmTransactionWithRetries g signature 3 s3 of
                              (Throw error, s4) \<Rightarrow> catch_part ''Error transferring tokens:'' error s4
                            | (confirmation, s4) \<Rightarrow>
                                (let s5 = console_log [Str ''Transfer transaction confirmed:'',
                                                       Conf confirmation] s4
                                 in (Undefined,
                                     s5\<lparr>transactionLog := transactionLog s5 @
                                       [\<lparr>entry_signature = signature, entry_from = wallet,
                                         entry_to = dest, entry_amount = of_int tokenAmount,
                                         entry_status = ''confirmed''\<rparr>]\<rparr>)))))
      else (Undefined, s))"

section \<open>Monitoring registry: the two routes\<close>

text \<open>JavaScript truthiness of an optional string: \<^verbatim>\<open>undefined\<close> and \<^verbatim>\<open>""\<close> are falsy.\<close>

definition truthy :: "string option \<Rightarrow> bool" where
  "truthy v = (case v of None \<Rightarrow> False | Some t \<Rightarrow> t \<noteq> [])"

text \<open>
  Modelled from the spec: the subscription calls belong to the Ledger Gateway, an external
  library, of which the spec (section 6) says that subscribing returns a handle and that
  unsubscribing takes the handle. Every \<^verbatim>\<open>/start-monitoring\<close> request creates its own
  \<^verbatim>\<open>Connection\<close> and registers one listener on it, so the id handed back is the first
  one of that connection, \<open>0\<close>; a listener is identified by its connection and its id,
  and a removal call removes the listener with that identity.
\<close>

definition onAccountChange :: "nat \<Rightarrow> pubkey \<Rightarrow> state \<Rightarrow> nat \<times> state" where
  "onAccountChange c account s =
     (0, s\<lparr>listeners := listeners s @
              [\<lparr>listener_connection = c, listener_id = 0, listener_account = account,
                listener_kind = AccountChange\<rparr>],
            gateway_calls := gateway_calls s @ [OnAccountChange c account]\<rparr>)"

definition onTokenAccountChange :: "nat \<Rightarrow> pubkey \<Rightarrow> state \<Rightarrow> nat \<times> state" where
  "onTokenAccountChange c account s =
     (0, s\<lparr>listeners := listeners s @
              [\<lparr>listener_connection = c, listener_id = 0, listener_account = account,
                listener_kind = TokenAccountChange\<rparr>],
            gateway_calls := gateway_calls s @ [OnTokenAccountChange c account]\<rparr>)"

definition remove_listener :: "nat \<Rightarrow> nat \<Rightarrow> listener list \<Rightarrow> listener list" where
  "remove_listener c i ls = filter (\<lambda>l. \<not> (listener_connection l = c \<and> listener_id l = i)) ls"

definition removeAccountChangeListener :: "nat \<Rightarrow> nat \<Rightarrow> state \<Rightarrow> state" where
  "removeAccountChangeListener c i s =
     s\<lparr>listeners := remove_listener c i (listeners s),
       gateway_calls := gateway_calls s @ [RemoveAccountChangeListener c i]\<rparr>"

definition removeProgramAccountChangeListener :: "nat \<Rightarrow> nat \<Rightarrow> state \<Rightarrow> state" where
  "removeProgramAccountChangeListener c i s =
     s\<lparr>listeners := remove_listener c i (listeners s),
       gateway_calls := gateway_calls s @ [RemoveProgramAccountChangeListener c i]\<rparr>"

text \<open>An HTTP response: the status and the JSON body, as its key-value pairs.\<close>

datatype response = Json nat "(string \<times> string) list"

definition error_message :: "js_error \<Rightarrow> string" where
  "error_message e = (case e of LibraryError m \<Rightarrow> m | ReferenceError m \<Rightarrow> m | TypeError m \<Rightarrow> m)"

text \<open>
  \<^verbatim>\<open>POST /start-monitoring\<close> (the same in both files). \<open>derive_keypair\<close> stands for the
  chain \<^verbatim>\<open>seed.join\<close>, \<^verbatim>\<open>mnemonicToSeed\<close>, \<^verbatim>\<open>derivePath\<close>, \<^verbatim>\<open>Keypair.fromSeed\<close>,
  \<^verbatim>\<open>publicKey.toBase58()\<close>; its value is the base58 text of a 32-byte key. Whatever
  throws inside the \<^verbatim>\<open>try\<close> is answered with status 500. The registry entry is written
  with \<^verbatim>\<open>monitoringTasks[key] = ...\<close>, with no look at what the key held before.
\<close>

definition start_failed :: "js_error \<Rightarrow> state \<Rightarrow> response js_result \<times> state" where
  "start_failed error s =
     (Return (Json 500 [(''message'', ''Error deriving key pair''), (''error'', error_message error)]),
      console_error [Str ''Error deriving key pair:'', Err error] s)"

definition start_monitoring ::
    "gateway \<Rightarrow> string list \<Rightarrow> string \<Rightarrow> string \<Rightarrow> string option \<Rightarrow> state \<Rightarrow> response js_result \<times> state" where
  "start_monitoring g seed secureWalletPublicKey network tokenMint s =
     (case derive_keypair g seed of
        Inl error \<Rightarrow> start_failed error s
      | Inr wallet \<Rightarrow>
         (case new_PublicKey g secureWalletPublicKey of
            Inl error \<Rightarrow> start_failed error s
          | Inr dest \<Rightarrow>
             (case clusterApiUrl g network of
                Inl error \<Rightarrow> start_failed error s
              | Inr url \<Rightarrow>
                 (let c = connections s;
                      s1 = s\<lparr>connections := Suc (connections s)\<rparr>;
                      s2 = console_log [Str ''Monitoring for incoming transactions on '', Str network,
                                        Str '' for address '', Str wallet] s1;
                      (subscription, s3) = (if truthy tokenMint then onTokenAccountChange c wallet s2
                                            else onAccountChange c wallet s2);
                      s4 = s3\<lparr>monitoringTasks := (monitoringTasks s3)(wallet \<mapsto>
                             \<lparr>connection = c, subscriptionId = subscription,
                              tokenMintAddress = tokenMint, compromisedWallet = wallet,
                              newSecureWalletPublicKey = dest\<rparr>)\<rparr>
                  in (Return (Json 200 [(''message'', ''Monitoring started''), (''publicKey'', wallet)]),
                      s4)))))"

text \<open>
  \<^verbatim>\<open>monitoringTasks\<close> is a plain object literal, so a read of a key it does not own
  falls through to \<^verbatim>\<open>Object.prototype\<close>. These are the names found there; each holds a
  function (or, for \<^verbatim>\<open>__proto__\<close>, the prototype object), which is truthy and has no
  property \<^verbatim>\<open>connection\<close>, \<^verbatim>\<open>subscriptionId\<close> or \<^verbatim>\<open>tokenMintAddress\<close>.
\<close>

definition Object_prototype_keys :: "string list" where
  "Object_prototype_keys =
     [''constructor'', ''__defineGetter__'', ''__defineSetter__'', ''hasOwnProperty'',
      ''__lookupGetter__'', ''__lookupSetter__'', ''isPrototypeOf'', ''propertyIsEnumerable'',
      ''toString'', ''valueOf'', ''__proto__'', ''toLocaleString'']"

text \<open>
  \<^verbatim>\<open>POST /stop-monitoring\<close> (the same in both files; the handler is synchronous). For a
  key of the registry the listener is removed with the call chosen by the entry's
  \<^verbatim>\<open>tokenMintAddress\<close>, then the entry is deleted. For an inherited name the test
  \<^verbatim>\<open>if (monitoringTasks[publicKey])\<close> succeeds, the destructured \<^verbatim>\<open>connection\<close> and
  \<^verbatim>\<open>tokenMintAddress\<close> are \<^verbatim>\<open>undefined\<close>, and \<^verbatim>\<open>connection.removeAccountChangeListener\<close>
  throws. For any other string the answer is status 400.
\<close>

definition stop_monitoring :: "string \<Rightarrow> state \<Rightarrow> response js_result \<times> state" where
  "stop_monitoring publicKey s =
     (case monitoringTasks s publicKey of
        Some t \<Rightarrow>
          (let s1 = (if truthy (tokenMintAddress t)
                     then removeProgramAccountChangeListener (connection t) (subscriptionId t) s
                     else removeAccountChangeListener (connection t) (subscriptionId t) s);
               s2 = s1\<lparr>monitoringTasks := (monitoringTasks s1)(publicKey := None)\<rparr>
           in (Return (Json 200 [(''message'', ''Monitoring stopped'')]),
               console_log [Str ''Monitoring stopped for '', Str publicKey] s2))
      | None \<Rightarrow>
          if publicKey \<in> set Object_prototype_keys then
            (Throw (TypeError ''Cannot read properties of undefined (reading removeAccountChangeListener)''), s)
          else
            (Return (Json 400 [(''message'', ''Monitoring not found for this public key'')]), s))"

section \<open>Sequences of requests\<close>

datatype request =
    StartMonitoring "string list" string string "string option"
  | StopMonitoring string

definition handle_request :: "gateway \<Rightarrow> request \<Rightarrow> state \<Rightarrow> response js_result \<times> state" where
  "handle_request g r s =
     (case r of
        StartMonitoring seed secureWalletPublicKey network tokenMint \<Rightarrow>
          start_monitoring g seed secureWalletPublicKey network tokenMint s
      | StopMonitoring publicKey \<Rightarrow> stop_monitoring publicKey s)"

fun run :: "gateway \<Rightarrow> request list \<Rightarrow> state \<Rightarrow> state" where
  "run g [] s = s"
| "run g (r # rs) s = run g rs (snd (handle_request g r s))"

text \<open>The live gateway listeners on one address.\<close>

definition active_subscriptions :: "pubkey \<Rightarrow> state \<Rightarrow> listener list" where
  "active_subscriptions a s = filter (\<lambda>l. listener_account l = a) (listeners s)"

text \<open>A request that is not a start on the address \<open>a\<close> while the registry holds \<open>a\<close>.\<close>

definition not_restart_of :: "pubkey \<Rightarrow> gateway \<Rightarrow> request \<Rightarrow> state \<Rightarrow> bool" where
  "not_restart_of a g r s =
     (case r of
        StartMonitoring seed secureWalletPublicKey network tokenMint \<Rightarrow>
          (case derive_keypair g seed of
             Inl error \<Rightarrow> True
           | Inr wallet \<Rightarrow> wallet \<noteq> a \<or> monitoringTasks s a = None)
      | StopMonitoring publicKey \<Rightarrow> True)"

fun no_restarts_of :: "pubkey \<Rightarrow> gateway \<Rightarrow> request list \<Rightarrow> state \<Rightarrow> bool" where
  "no_restarts_of a g [] s = True"
| "no_restarts_of a g (r # rs) s =
     (not_restart_of a g r s \<and> no_restarts_of a g rs (snd (handle_request g r s)))"

section \<open>Sample collaborators\<close>

text \<open>
  A gateway for the concrete runs below: \<open>send\<close> is what \<^verbatim>\<open>sendTransaction\<close> does,
  \<open>answers\<close> what the successive confirmation polls do (a poll beyond the list times
  out); keys and cluster names are accepted as they are, a wallet's address is the text
  of its seed words, and the associated token account of an owner for a mint is named
  after both.
\<close>

definition scripted_gateway :: "(js_error + string) \<Rightarrow> (js_error + confirmation) list \<Rightarrow> gateway" where
  "scripted_gateway send answers =
     \<lparr>sendTransaction = (\<lambda>transaction. send),
      confirmTransaction = (\<lambda>n sig. if n < length answers then answers ! n
                                     else Inl (LibraryError ''timeout'')),
      getAssociatedTokenAddress = (\<lambda>mint owner. Inr (''ata/'' @ owner @ ''/'' @ mint)),
      new_PublicKey = Inr,
      derive_keypair = (\<lambda>seed. Inr (concat seed)),
      clusterApiUrl = Inr\<rparr>"

definition sample_gateway :: gateway where
  "sample_gateway = scripted_gateway (Inr ''5sig'') [Inr (Confirmation None)]"

text \<open>Two start requests with the same seed, both for the native balance, a start
  request for another wallet, and the state after the first of them.\<close>

definition first_start :: request where
  "first_start = StartMonitoring [''alpha'', ''beta''] ''Secure'' ''devnet'' None"

definition second_start :: request where
  "second_start = StartMonitoring [''alpha'', ''beta''] ''Vault'' ''devnet'' None"

definition start_gamma :: request where
  "start_gamma = StartMonitoring [''gamma''] ''Secure'' ''devnet'' None"

definition watching :: state where
  "watching = run sample_gateway [first_start] initial_state"

section \<open>Auxiliary predicates\<close>

text \<open>
  The gateway accepts the transaction and one of the three confirmation polls that start
  at poll \<open>n\<close> answers: the condition under which \<^verbatim>\<open>sendTransaction\<close> and
  \<^verbatim>\<open>confirmTransactionWithRetries\<close> both come back without throwing.
\<close>

definition sweep_confirms :: "gateway \<Rightarrow> transaction \<Rightarrow> nat \<Rightarrow> bool" where
  "sweep_confirms g transaction n =
     (case sendTransaction g transaction of
        Inl error \<Rightarrow> False
      | Inr sig \<Rightarrow> \<not> (isl (confirmTransaction g n sig) \<and> isl (confirmTransaction g (n + 1) sig) \<and>
                      isl (confirmTransaction g (n + 2) sig)))"

text \<open>
  The registry accounts for every live listener on the address \<open>a\<close>: each listener sits
  on a connection that exists, no two listeners share a connection, and for a listener on
  \<open>a\<close> the registry entry of \<open>a\<close> names exactly its connection and id.
\<close>

definition registry_inv :: "pubkey \<Rightarrow> state \<Rightarrow> bool" where
  "registry_inv a s =
     ((\<forall>l \<in> set (listeners s).
         listener_connection l < connections s \<and>
         (listener_account l = a \<longrightarrow>
            (\<exists>t. monitoringTasks s a = Some t \<and>
                 connection t = listener_connection l \<and> subscriptionId t = listener_id l))) \<and>
      distinct (map listener_connection (listeners s)))"

section \<open>Properties of the retrier\<close>

declare confirm_loop.simps [simp del]

lemma confirm_loop_done: "\<not> attempt < retries \<Longrightarrow> confirm_loop g sig retries attempt s = (Undefined, s)"
  by (simp add: confirm_loop.simps)

lemma confirm_loop_answer:
  "attempt < retries \<Longrightarrow> confirmTransaction g (polls s) sig = Inr c \<Longrightarrow>
   confirm_loop g sig retries attempt s = (Return c, s\<lparr>polls := Suc (polls s)\<rparr>)"
  by (simp add: confirm_loop.simps)

lemma confirm_loop_last:
  "attempt = retries - 1 \<Longrightarrow> confirmTransaction g (polls s) sig = Inl e \<Longrightarrow>
   confirm_loop g sig retries attempt s = (Throw e, s\<lparr>polls := Suc (polls s)\<rparr>)"
  by (simp add: confirm_loop.simps)

lemma confirm_loop_retry:
  "attempt < retries - 1 \<Longrightarrow> confirmTransaction g (polls s) sig = Inl e \<Longrightarrow>
   confirm_loop g sig retries attempt s =
     confirm_loop g sig retries (attempt + 1)
       (s\<lparr>polls := Suc (polls s), console := console s @ [retry_line (attempt + 1)]\<rparr>)"
  by (simp add: confirm_loop.simps console_log_def retry_line_def)

text \<open>
  C3. With \<open>retries = 3\<close> the retrier returns the answer of the first poll that answers,
  whatever the answer says (success or on-chain failure) and without polling again; a poll
  that throws is followed by the next one, three polls at most; when the third poll throws
  as well, that error is thrown to the caller.
\<close>

theorem confirm_three_attempts:
  "confirmTransactionWithRetries g sig 3 s =
     (case confirmTransaction g (polls s) sig of
        Inr c \<Rightarrow> (Return c, s\<lparr>polls := polls s + 1\<rparr>)
      | Inl e1 \<Rightarrow>
         (case confirmTransaction g (polls s + 1) sig of
            Inr c \<Rightarrow> (Return c, s\<lparr>polls := polls s + 2, console := console s @ [retry_line 1]\<rparr>)
          | Inl e2 \<Rightarrow>
             (case confirmTransaction g (polls s + 2) sig of
                Inr c \<Rightarrow> (Return c, s\<lparr>polls := polls s + 3,
                                        console := console s @ [retry_line 1, retry_line 2]\<rparr>)
              | Inl e3 \<Rightarrow> (Throw e3, s\<lparr>polls := polls s + 3,
                                        console := console s @ [retry_line 1, retry_line 2]\<rparr>))))"
  unfolding confirmTransactionWithRetries_def
  by (simp add: confirm_loop_answer confirm_loop_last confirm_loop_retry split: sum.splits)

text \<open>
  C10. Called with \<open>retries \<le> 0\<close> the loop body never runs: the call yields \<^verbatim>\<open>undefined\<close>,
  neither a confirmation nor an error, and the gateway is not polled (the state, its poll
  counter included, is the one the call started from).
\<close>

theorem confirm_no_attempts:
  "retries \<le> 0 \<Longrightarrow> confirmTransactionWithRetries g sig retries s = (Undefined, s)"
  unfolding confirmTransactionWithRetries_def by (simp add: confirm_loop_done)

theorem confirm_no_attempts_witness:
  "(0::int) \<le> 0 \<and>
   confirmTransactionWithRetries sample_gateway ''5sig'' 0 initial_state
     = (Undefined, initial_state)"
  using confirm_no_attempts [of 0 sample_gateway "''5sig''" initial_state] by simp


lemma confirm_loop_frame:
  "confirm_loop g sig retries attempt s = (r, s') \<Longrightarrow>
     transactionLog s' = transactionLog s \<and> monitoringTasks s' = monitoringTasks s \<and>
     connections s' = connections s \<and> listeners s' = listeners s \<and>
     gateway_calls s' = gateway_calls s \<and> submitted s' = submitted s \<and>
     broadcasts s' = broadcasts s"
proof (induction g sig retries attempt s arbitrary: r s' rule: confirm_loop.induct)
  case (1 g sig retries attempt s)
  show ?case
  proof (cases "attempt < retries")
    case False
    with "1.prems" show ?thesis by (simp add: confirm_loop_done)
  next
    case True
    show ?thesis
    proof (cases "confirmTransaction g (polls s) sig")
      case (Inr c)
      with True "1.prems" show ?thesis by (auto simp: confirm_loop_answer)
    next
      case (Inl e)
      show ?thesis
      proof (cases "attempt = retries - 1")
        case True
        with Inl "1.prems" show ?thesis by (auto simp: confirm_loop_last)
      next
        case False
        with True have lt: "attempt < retries - 1" by simp
        let ?s1 = "s\<lparr>polls := Suc (polls s)\<rparr>"
        let ?s2 = "console_log [Str ''Retrying transaction confirmation, attempt '',
                                 Num (attempt + 1), Str ''...''] ?s1"
        have step: "confirm_loop g sig retries attempt s = confirm_loop g sig retries (attempt + 1) ?s2"
          using True Inl False by (subst confirm_loop.simps) simp
        with "1.prems" have "confirm_loop g sig retries (attempt + 1) ?s2 = (r, s')" by simp
        from "1.IH" [OF True refl Inl False this] show ?thesis by (simp add: console_log_def)
      qed
    qed
  qed
qed

lemma confirm_frame:
  "confirmTransactionWithRetries g sig retries s = (r, s') \<Longrightarrow>
     transactionLog s' = transactionLog s \<and> monitoringTasks s' = monitoringTasks s \<and>
     connections s' = connections s \<and> listeners s' = listeners s \<and>
     gateway_calls s' = gateway_calls s \<and> submitted s' = submitted s \<and>
     broadcasts s' = broadcasts s"
  unfolding confirmTransactionWithRetries_def by (rule confirm_loop_frame)

section \<open>Properties of the native-balance handlers\<close>

lemmas handler_defs = console_log_def console_error_def broadcastTransactionLog_def catch_part_def
  SystemProgram_transfer_def

lemmas gateway_defs = scripted_gateway_def initial_state_def LAMPORTS_PER_SOL_def

lemmas sample_defs = sample_gateway_def gateway_defs

text \<open>
  What the retrier does to the state is confined to the poll counter and the console
  (\<open>confirm_frame\<close>), and it throws exactly when all three polls throw.
\<close>

lemma confirm_throws_iff:
  "(\<exists>e. fst (confirmTransactionWithRetries g sig 3 s) = Throw e) \<longleftrightarrow>
     isl (confirmTransaction g (polls s) sig) \<and> isl (confirmTransaction g (polls s + 1) sig) \<and>
     isl (confirmTransaction g (polls s + 2) sig)"
  unfolding confirmTransactionWithRetries_def
  by (cases "confirmTransaction g (polls s) sig"; cases "confirmTransaction g (polls s + 1) sig";
      cases "confirmTransaction g (polls s + 2) sig")
     (simp_all add: confirm_loop_answer confirm_loop_last confirm_loop_retry)

text \<open>
  The handler of \<^verbatim>\<open>src/api/index.js\<close> has no test of the amount. Below the fee the
  builder refuses the negative amount and the handler rejects, before the \<^verbatim>\<open>try\<close>, with
  nothing handed to the gateway. From 5000 lamports on it hands a transfer of
  \<open>lamports - 5000\<close> to the gateway, a transfer of nothing at exactly 5000, and every
  error of the \<^verbatim>\<open>try\<close> block stays inside: the handler resolves. An entry it appends
  carries the observed balance.
\<close>

lemma api_rejects_below_fee:
  "0 < lamports accountInfo \<Longrightarrow> lamports accountInfo < 5000 \<Longrightarrow>
   handleAccountChange_api g wallet dest accountInfo s =
     (Throw (LibraryError ''lamports out of range''),
      s\<lparr>console := console s @
          [ConsoleLog [Str ''Received '', Sol (of_int (lamports accountInfo) / LAMPORTS_PER_SOL),
                       Str '' SOL, transferring to secure wallet...'']]\<rparr>)"
  by (simp add: handleAccountChange_api_def Let_def handler_defs)

lemma api_resolves:
  "lamports accountInfo \<le> 0 \<or> 5000 \<le> lamports accountInfo \<Longrightarrow>
   fst (handleAccountChange_api g wallet dest accountInfo s) = Undefined"
  by (auto simp: handleAccountChange_api_def Let_def SystemProgram_transfer_def
           split: sum.splits prod.splits js_result.splits)

lemma api_submits:
  "5000 \<le> lamports accountInfo \<Longrightarrow>
   submitted (snd (handleAccountChange_api g wallet dest accountInfo s)) =
     submitted s @ [[SystemTransfer wallet dest (lamports accountInfo - 5000)]]"
  by (auto simp: handleAccountChange_api_def Let_def handler_defs
           split: sum.splits prod.splits js_result.splits dest!: confirm_frame)

lemma api_entry:
  "handleAccountChange_api g wallet dest accountInfo s = (r, s') \<Longrightarrow>
   transactionLog s' = transactionLog s \<or>
   (\<exists>sig. transactionLog s' = transactionLog s @
      [\<lparr>entry_signature = sig, entry_from = wallet, entry_to = dest,
        entry_amount = of_int (lamports accountInfo) / LAMPORTS_PER_SOL,
        entry_status = ''confirmed''\<rparr>])"
  by (auto simp: handleAccountChange_api_def Let_def handler_defs
           split: sum.splits prod.splits js_result.splits if_splits dest!: confirm_frame)

text \<open>
  The handler of \<^verbatim>\<open>src/unnamed/part_000\<close> stops at a balance that does not exceed the
  fee (nothing is handed to the gateway, nothing is polled, the log keeps its length) and
  otherwise hands over one transfer of \<open>lamports - 5000\<close>; an entry it appends carries
  that transferred amount.
\<close>

lemma part_insufficient:
  "0 < lamports accountInfo \<Longrightarrow> lamports accountInfo \<le> 5000 \<Longrightarrow>
   handleAccountChange_part g wallet dest accountInfo s =
     (Undefined,
      s\<lparr>console := console s @
          [ConsoleLog [Str ''Received '', Sol (of_int (lamports accountInfo) / LAMPORTS_PER_SOL),
                       Str '' SOL, transferring to secure wallet...''],
           ConsoleError [Str ''Not enough SOL to cover the transaction fee.'']]\<rparr>)"
  by (simp add: handleAccountChange_part_def Let_def handler_defs)

lemma part_builds:
  "5000 < lamports accountInfo \<Longrightarrow>
   submitted (snd (handleAccountChange_part g wallet dest accountInfo s)) =
     submitted s @ [[SystemTransfer wallet dest (lamports accountInfo - 5000)]]"
  by (auto simp: handleAccountChange_part_def Let_def handler_defs
           split: sum.splits prod.splits js_result.splits dest!: confirm_frame)

lemma part_entry:
  "handleAccountChange_part g wallet dest accountInfo s = (r, s') \<Longrightarrow>
   transactionLog s' = transactionLog s \<or>
   (\<exists>sig. transactionLog s' = transactionLog s @
      [\<lparr>entry_signature = sig, entry_from = wallet, entry_to = dest,
        entry_amount = of_int (lamports accountInfo - 5000) / LAMPORTS_PER_SOL,
        entry_status = ''confirmed''\<rparr>])"
  by (auto simp: handleAccountChange_part_def Let_def handler_defs
           split: sum.splits prod.splits js_result.splits if_splits dest!: confirm_frame)

lemma part_records_transferred_amount:
  "transactionLog (snd (handleAccountChange_part
       (scripted_gateway (Inr ''5sig'') [Inr (Confirmation None)])
       ''Wallet'' ''Secure'' \<lparr>lamports = 1000000\<rparr> initial_state))
     = [\<lparr>entry_signature = ''5sig'', entry_from = ''Wallet'', entry_to = ''Secure'',
         entry_amount = 995 / 1000000, entry_status = ''confirmed''\<rparr>]"
  by (simp add: handleAccountChange_part_def confirmTransactionWithRetries_def confirm_loop_answer
        Let_def handler_defs gateway_defs)

text \<open>
  Neither handler touches the registry or the gateway's listeners.
\<close>

lemma native_handlers_keep_registry:
  "monitoringTasks (snd (handleAccountChange_api g wallet dest accountInfo s)) = monitoringTasks s \<and>
   listeners (snd (handleAccountChange_api g wallet dest accountInfo s)) = listeners s \<and>
   monitoringTasks (snd (handleAccountChange_part g wallet dest accountInfo s)) = monitoringTasks s \<and>
   listeners (snd (handleAccountChange_part g wallet dest accountInfo s)) = listeners s"
  by (auto simp: handleAccountChange_api_def handleAccountChange_part_def Let_def handler_defs
           split: sum.splits prod.splits js_result.splits if_splits dest!: confirm_frame)

text \<open>
  Once the transfer is built, in both files the log grows exactly when the submission is
  accepted and the retrier comes back with an answer. In \<^verbatim>\<open>src/api/index.js\<close> the
  handler resolves either way (\<open>api_resolves\<close>); in \<^verbatim>\<open>src/unnamed/part_000\<close> it resolves
  in the first case only and otherwise rejects with the \<^verbatim>\<open>ReferenceError\<close> raised in its
  \<^verbatim>\<open>catch\<close> block.
\<close>

lemma api_outcome:
  assumes pos: "5000 \<le> lamports accountInfo"
  shows "(transactionLog (snd (handleAccountChange_api g wallet dest accountInfo s)) \<noteq> transactionLog s)
           = sweep_confirms g [SystemTransfer wallet dest (lamports accountInfo - 5000)] (polls s)"
proof (cases "sendTransaction g [SystemTransfer wallet dest (lamports accountInfo - 5000)]")
  case (Inl e)
  with pos show ?thesis
    by (simp add: handleAccountChange_api_def sweep_confirms_def Let_def handler_defs)
next
  case (Inr sig)
  let ?s3 = "console_log [Str ''Transfer transaction sent with signature:'', Str sig]
              ((console_log [Str ''Received '', Sol (of_int (lamports accountInfo) / LAMPORTS_PER_SOL),
                             Str '' SOL, transferring to secure wallet...''] s)
               \<lparr>submitted := submitted s @ [[SystemTransfer wallet dest (lamports accountInfo - 5000)]]\<rparr>)"
  obtain r s4 where c: "confirmTransactionWithRetries g sig 3 ?s3 = (r, s4)" by force
  have p: "polls ?s3 = polls s" by (simp add: console_log_def)
  from confirm_frame [OF c] have f: "transactionLog s4 = transactionLog s" by (simp add: console_log_def)
  have t: "(\<exists>e. r = Throw e) \<longleftrightarrow>
     isl (confirmTransaction g (polls s) sig) \<and> isl (confirmTransaction g (polls s + 1) sig) \<and>
     isl (confirmTransaction g (polls s + 2) sig)"
    using confirm_throws_iff [of g sig ?s3] c p by simp
  from t Inr c f pos show ?thesis
    by (cases r) (simp_all add: handleAccountChange_api_def sweep_confirms_def Let_def handler_defs)
qed

lemma part_outcome:
  assumes pos: "5000 < lamports accountInfo"
  shows "(if sweep_confirms g [SystemTransfer wallet dest (lamports accountInfo - 5000)] (polls s)
          then fst (handleAccountChange_part g wallet dest accountInfo s) = Undefined \<and>
               transactionLog (snd (handleAccountChange_part g wallet dest accountInfo s)) \<noteq> transactionLog s
          else fst (handleAccountChange_part g wallet dest accountInfo s)
                 = Throw (ReferenceError ''SendTransactionError is not defined'') \<and>
               transactionLog (snd (handleAccountChange_part g wallet dest accountInfo s)) = transactionLog s)"
proof (cases "sendTransaction g [SystemTransfer wallet dest (lamports accountInfo - 5000)]")
  case (Inl e)
  with pos show ?thesis
    by (simp add: handleAccountChange_part_def sweep_confirms_def Let_def handler_defs)
next
  case (Inr sig)
  let ?s3 = "console_log [Str ''Transfer transaction sent with signature:'', Str sig]
              ((console_log [Str ''Received '', Sol (of_int (lamports accountInfo) / LAMPORTS_PER_SOL),
                             Str '' SOL, transferring to secure wallet...''] s)
               \<lparr>submitted := submitted s @ [[SystemTransfer wallet dest (lamports accountInfo - 5000)]]\<rparr>)"
  obtain r s4 where c: "confirmTransactionWithRetries g sig 3 ?s3 = (r, s4)" by force
  have p: "polls ?s3 = polls s" by (simp add: console_log_def)
  from confirm_frame [OF c] have f: "transactionLog s4 = transactionLog s" by (simp add: console_log_def)
  have t: "(\<exists>e. r = Throw e) \<longleftrightarrow>
     isl (confirmTransaction g (polls s) sig) \<and> isl (confirmTransaction g (polls s + 1) sig) \<and>
     isl (confirmTransaction g (polls s + 2) sig)"
    using confirm_throws_iff [of g sig ?s3] c p by simp
  from t Inr c f pos show ?thesis
    by (cases r) (simp_all add: handleAccountChange_part_def sweep_confirms_def Let_def handler_defs)
qed

text \<open>
  C1. The claim asks that a positive balance \<open>b\<close> with \<open>b - 5000 \<le> 0\<close> ends the handler
  with no operation built, nothing submitted and nothing appended.
  \<^verbatim>\<open>src/unnamed/part_000\<close> does so (\<open>part_insufficient\<close>, \<open>part_builds\<close>).
  \<^verbatim>\<open>src/api/index.js\<close> does not: at a balance of 5000 lamports, where \<open>b - 5000 = 0\<close>,
  for every gateway, wallet, destination and state it builds a transfer of 0 lamports and
  hands it to \<^verbatim>\<open>sendTransaction\<close>, and with a gateway that accepts and confirms it
  appends an entry of amount \<open>1 / 200000\<close> (0.000005).
\<close>

theorem api_submits_empty_transfer:
  "submitted (snd (handleAccountChange_api g wallet dest \<lparr>lamports = 5000\<rparr> s)) =
     submitted s @ [[SystemTransfer wallet dest 0]]
   \<and> transactionLog (snd (handleAccountChange_api sample_gateway
       ''Wallet'' ''Secure'' \<lparr>lamports = 5000\<rparr> initial_state))
     = [\<lparr>entry_signature = ''5sig'', entry_from = ''Wallet'', entry_to = ''Secure'',
         entry_amount = 1 / 200000, entry_status = ''confirmed''\<rparr>]"
proof
  show "submitted (snd (handleAccountChange_api g wallet dest \<lparr>lamports = 5000\<rparr> s)) =
          submitted s @ [[SystemTransfer wallet dest 0]]"
    using api_submits [of "\<lparr>lamports = 5000\<rparr>" g wallet dest s] by simp
  show "transactionLog (snd (handleAccountChange_api sample_gateway
          ''Wallet'' ''Secure'' \<lparr>lamports = 5000\<rparr> initial_state))
        = [\<lparr>entry_signature = ''5sig'', entry_from = ''Wallet'', entry_to = ''Secure'',
            entry_amount = 1 / 200000, entry_status = ''confirmed''\<rparr>]"
    by (simp add: handleAccountChange_api_def confirmTransactionWithRetries_def confirm_loop_answer
          Let_def handler_defs sample_defs)
qed

text \<open>
  C2. The claim asks that the entry of a confirmed sweep records the transferred amount,
  0.000995 for a deposit of 1000000 lamports. \<^verbatim>\<open>src/unnamed/part_000\<close> records it
  (\<open>part_entry\<close>, \<open>part_records_transferred_amount\<close>). \<^verbatim>\<open>src/api/index.js\<close> transfers
  995000 lamports and records the observed balance: amount \<open>1 / 1000\<close>.
\<close>

theorem api_records_observed_balance:
  "transactionLog (snd (handleAccountChange_api
       (scripted_gateway (Inr ''5sig'') [Inr (Confirmation None)])
       ''Wallet'' ''Secure'' \<lparr>lamports = 1000000\<rparr> initial_state))
     = [\<lparr>entry_signature = ''5sig'', entry_from = ''Wallet'', entry_to = ''Secure'',
         entry_amount = 1 / 1000, entry_status = ''confirmed''\<rparr>]
   \<and> submitted (snd (handleAccountChange_api
       (scripted_gateway (Inr ''5sig'') [Inr (Confirmation None)])
       ''Wallet'' ''Secure'' \<lparr>lamports = 1000000\<rparr> initial_state))
     = [[SystemTransfer ''Wallet'' ''Secure'' 995000]]"
  by (simp add: handleAccountChange_api_def confirmTransactionWithRetries_def confirm_loop_answer
        Let_def handler_defs gateway_defs)

text \<open>
  C4. The claim asks that a failed submission and an exhausted retrier leave the log
  unchanged and that the error is caught and logged inside the handler. Both files leave
  the log and the registry unchanged and print the error (\<open>api_outcome\<close>, \<open>part_outcome\<close>,
  \<open>native_handlers_keep_registry\<close>), and \<^verbatim>\<open>src/api/index.js\<close> then resolves
  (\<open>api_resolves\<close>). In \<^verbatim>\<open>src/unnamed/part_000\<close> the \<^verbatim>\<open>catch\<close> block itself throws:
  with a deposit of 1000000 lamports the handler rejects with a \<^verbatim>\<open>ReferenceError\<close>, both
  when the gateway refuses the transaction and when all three confirmation polls time
  out.
\<close>

theorem part_handler_rejects_on_failure:
  "handleAccountChange_part (scripted_gateway (Inl (LibraryError ''rejected'')) [])
       ''Wallet'' ''Secure'' \<lparr>lamports = 1000000\<rparr> initial_state
     = (Throw (ReferenceError ''SendTransactionError is not defined''),
        initial_state\<lparr>console :=
          [ConsoleLog [Str ''Received '', Sol (1 / 1000), Str '' SOL, transferring to secure wallet...''],
           ConsoleError [Str ''Error transferring funds:'', Err (LibraryError ''rejected'')]],
          submitted := [[SystemTransfer ''Wallet'' ''Secure'' 995000]]\<rparr>)
   \<and> fst (handleAccountChange_part (scripted_gateway (Inr ''5sig'') [])
       ''Wallet'' ''Secure'' \<lparr>lamports = 1000000\<rparr> initial_state)
     = Throw (ReferenceError ''SendTransactionError is not defined'')
   \<and> transactionLog (snd (handleAccountChange_part (scripted_gateway (Inr ''5sig'') [])
       ''Wallet'' ''Secure'' \<lparr>lamports = 1000000\<rparr> initial_state)) = []"
  by (simp add: handleAccountChange_part_def confirmTransactionWithRetries_def
        confirm_loop_retry confirm_loop_last
        Let_def handler_defs gateway_defs)

text \<open>
  C9. The claim asks that the native handlers of the two files build the same transfer
  (or both none) and append the same entry. They do not: at 5000 lamports
  \<^verbatim>\<open>src/api/index.js\<close> submits a transfer of 0 lamports and \<^verbatim>\<open>src/unnamed/part_000\<close>
  submits nothing; after a confirmed sweep of a deposit of 1000000 lamports the two
  entries hold the amounts \<open>1 / 1000\<close> and \<open>199 / 200000\<close> (0.001 and 0.000995).
\<close>

theorem native_handlers_differ:
  "submitted (snd (handleAccountChange_api (scripted_gateway (Inr ''5sig'') [Inr (Confirmation None)])
       ''Wallet'' ''Secure'' \<lparr>lamports = 5000\<rparr> initial_state))
     = [[SystemTransfer ''Wallet'' ''Secure'' 0]]
   \<and> submitted (snd (handleAccountChange_part (scripted_gateway (Inr ''5sig'') [Inr (Confirmation None)])
       ''Wallet'' ''Secure'' \<lparr>lamports = 5000\<rparr> initial_state)) = []
   \<and> map entry_amount (transactionLog (snd (handleAccountChange_api
       (scripted_gateway (Inr ''5sig'') [Inr (Confirmation None)])
       ''Wallet'' ''Secure'' \<lparr>lamports = 1000000\<rparr> initial_state))) = [1 / 1000]
   \<and> map entry_amount (transactionLog (snd (handleAccountChange_part
       (scripted_gateway (Inr ''5sig'') [Inr (Confirmation None)])
       ''Wallet'' ''Secure'' \<lparr>lamports = 1000000\<rparr> initial_state))) = [199 / 200000]"
  by (simp add: handleAccountChange_api_def handleAccountChange_part_def
        confirmTransactionWithRetries_def confirm_loop_answer
        Let_def handler_defs gateway_defs)

section \<open>Properties of the token-balance handlers\<close>



text \<open>
  When the mint is no valid key or the associated account cannot be derived, the handler
  of either file rejects before the \<^verbatim>\<open>try\<close>, with nothing built.
\<close>

lemma token_unresolved_rejects:
  "0 < amount accountInfo \<Longrightarrow> resolve_token_account g dest tokenMint = Inl e \<Longrightarrow>
   fst (handleTokenAccountChange_api g wallet dest tokenMint accountInfo s) = Throw e \<and>
   submitted (snd (handleTokenAccountChange_api g wallet dest tokenMint accountInfo s)) = submitted s \<and>
   fst (handleTokenAccountChange_part g wallet dest tokenMint accountInfo s) = Throw e \<and>
   submitted (snd (handleTokenAccountChange_part g wallet dest tokenMint accountInfo s)) = submitted s"
  by (simp add: handleTokenAccountChange_api_def handleTokenAccountChange_part_def Let_def
        console_log_def)




section \<open>Properties of the monitoring registry\<close>

lemmas route_defs = start_monitoring_def start_failed_def stop_monitoring_def handle_request_def
  onAccountChange_def onTokenAccountChange_def removeAccountChangeListener_def
  removeProgramAccountChangeListener_def console_log_def console_error_def

lemma watching_eq:
  "watching = initial_state\<lparr>
     monitoringTasks := [''alphabeta'' \<mapsto>
        \<lparr>connection = 0, subscriptionId = 0, tokenMintAddress = None,
         compromisedWallet = ''alphabeta'', newSecureWalletPublicKey = ''Secure''\<rparr>],
     console := [ConsoleLog [Str ''Monitoring for incoming transactions on '', Str ''devnet'',
                             Str '' for address '', Str ''alphabeta'']],
     connections := 1,
     listeners := [\<lparr>listener_connection = 0, listener_id = 0, listener_account = ''alphabeta'',
                    listener_kind = AccountChange\<rparr>],
     gateway_calls := [OnAccountChange 0 ''alphabeta'']\<rparr>"
  by (simp add: watching_def first_start_def route_defs truthy_def Let_def sample_defs)

text \<open>
  C8. A start on an address the registry already holds answers with status 200 and the
  watched address, as a first start does, and replaces the entry under that address by
  one with the new connection, the new subscription id, the new mint and the new
  destination; the new listener is added to the live ones.
\<close>

theorem restart_overwrites_entry:
  assumes "derive_keypair g seed = Inr wallet"
    and "new_PublicKey g secureWalletPublicKey = Inr dest"
    and "clusterApiUrl g network = Inr url"
    and "monitoringTasks s wallet = Some old"
  shows "fst (start_monitoring g seed secureWalletPublicKey network tokenMint s) =
           Return (Json 200 [(''message'', ''Monitoring started''), (''publicKey'', wallet)])
       \<and> monitoringTasks (snd (start_monitoring g seed secureWalletPublicKey network tokenMint s)) =
           (monitoringTasks s)(wallet \<mapsto>
              \<lparr>connection = connections s, subscriptionId = 0, tokenMintAddress = tokenMint,
               compromisedWallet = wallet, newSecureWalletPublicKey = dest\<rparr>)
       \<and> listeners (snd (start_monitoring g seed secureWalletPublicKey network tokenMint s)) =
           listeners s @
             [\<lparr>listener_connection = connections s, listener_id = 0, listener_account = wallet,
               listener_kind = (if truthy tokenMint then TokenAccountChange else AccountChange)\<rparr>]"
  using assms by (simp add: route_defs Let_def)

theorem restart_overwrites_entry_witness:
  "monitoringTasks watching ''alphabeta'' =
     Some \<lparr>connection = 0, subscriptionId = 0, tokenMintAddress = None,
           compromisedWallet = ''alphabeta'', newSecureWalletPublicKey = ''Secure''\<rparr>
   \<and> fst (start_monitoring sample_gateway [''alpha'', ''beta''] ''Vault'' ''devnet'' None watching)
       = Return (Json 200 [(''message'', ''Monitoring started''), (''publicKey'', ''alphabeta'')])
   \<and> monitoringTasks (snd (start_monitoring sample_gateway [''alpha'', ''beta''] ''Vault'' ''devnet''
        None watching)) ''alphabeta''
       = Some \<lparr>connection = 1, subscriptionId = 0, tokenMintAddress = None,
               compromisedWallet = ''alphabeta'', newSecureWalletPublicKey = ''Vault''\<rparr>
   \<and> listeners (snd (start_monitoring sample_gateway [''alpha'', ''beta''] ''Vault'' ''devnet''
        None watching))
       = [\<lparr>listener_connection = 0, listener_id = 0, listener_account = ''alphabeta'',
           listener_kind = AccountChange\<rparr>,
          \<lparr>listener_connection = 1, listener_id = 0, listener_account = ''alphabeta'',
           listener_kind = AccountChange\<rparr>]"
proof -
  have d: "derive_keypair sample_gateway [''alpha'', ''beta''] = Inr ''alphabeta''"
    and k: "new_PublicKey sample_gateway ''Vault'' = Inr ''Vault''"
    and u: "clusterApiUrl sample_gateway ''devnet'' = Inr ''devnet''"
    by (simp_all add: sample_defs)
  have m: "monitoringTasks watching ''alphabeta'' =
     Some \<lparr>connection = 0, subscriptionId = 0, tokenMintAddress = None,
           compromisedWallet = ''alphabeta'', newSecureWalletPublicKey = ''Secure''\<rparr>"
    by (simp add: watching_eq)
  have c: "connections watching = 1" by (simp add: watching_eq)
  have l: "listeners watching = [\<lparr>listener_connection = 0, listener_id = 0,
             listener_account = ''alphabeta'', listener_kind = AccountChange\<rparr>]"
    by (simp add: watching_eq initial_state_def)
  from restart_overwrites_entry [OF d k u m, of None] m c l show ?thesis
    by (simp add: truthy_def)
qed

text \<open>
  An address is the base58 text of a 32-byte key, at least 32 characters long, so it is
  none of the names inherited from \<^verbatim>\<open>Object.prototype\<close>. For one of those names and no
  registry entry, the route throws instead of answering 400.
\<close>

lemma address_not_inherited: "32 \<le> length a \<Longrightarrow> a \<notin> set Object_prototype_keys"
  by (auto simp: Object_prototype_keys_def)

lemma stop_inherited_name:
  "monitoringTasks s publicKey = None \<Longrightarrow> publicKey \<in> set Object_prototype_keys \<Longrightarrow>
   \<exists>e. stop_monitoring publicKey s = (Throw e, s)"
  by (simp add: stop_monitoring_def)

text \<open>
  C5. For an address (a string that is not a name inherited from \<^verbatim>\<open>Object.prototype\<close>):
  without a registry entry the route answers 400 and the whole state, registry and
  listeners included, is unchanged; with an entry it calls
  \<^verbatim>\<open>removeProgramAccountChangeListener\<close> for a token entry and
  \<^verbatim>\<open>removeAccountChangeListener\<close> for a native one, on the entry's connection and id,
  deletes the entry and answers 200, and a second stop on the same address answers 400
  and changes nothing.
\<close>

theorem stop_monitoring_contract:
  assumes "publicKey \<notin> set Object_prototype_keys"
  shows "case monitoringTasks s publicKey of
           None \<Rightarrow>
             stop_monitoring publicKey s =
               (Return (Json 400 [(''message'', ''Monitoring not found for this public key'')]), s)
         | Some t \<Rightarrow>
             fst (stop_monitoring publicKey s) = Return (Json 200 [(''message'', ''Monitoring stopped'')]) \<and>
             gateway_calls (snd (stop_monitoring publicKey s)) =
               gateway_calls s @
                 [if truthy (tokenMintAddress t)
                  then RemoveProgramAccountChangeListener (connection t) (subscriptionId t)
                  else RemoveAccountChangeListener (connection t) (subscriptionId t)] \<and>
             listeners (snd (stop_monitoring publicKey s)) =
               remove_listener (connection t) (subscriptionId t) (listeners s) \<and>
             monitoringTasks (snd (stop_monitoring publicKey s)) = (monitoringTasks s)(publicKey := None) \<and>
             stop_monitoring publicKey (snd (stop_monitoring publicKey s)) =
               (Return (Json 400 [(''message'', ''Monitoring not found for this public key'')]),
                snd (stop_monitoring publicKey s))"
  using assms by (simp add: route_defs Let_def split: option.splits)

theorem stop_monitoring_contract_witness:
  "''alphabeta'' \<notin> set Object_prototype_keys
   \<and> stop_monitoring ''alphabeta'' initial_state =
       (Return (Json 400 [(''message'', ''Monitoring not found for this public key'')]), initial_state)
   \<and> fst (stop_monitoring ''alphabeta'' watching) = Return (Json 200 [(''message'', ''Monitoring stopped'')])
   \<and> gateway_calls (snd (stop_monitoring ''alphabeta'' watching)) =
       [OnAccountChange 0 ''alphabeta'', RemoveAccountChangeListener 0 0]
   \<and> listeners (snd (stop_monitoring ''alphabeta'' watching)) = []
   \<and> monitoringTasks (snd (stop_monitoring ''alphabeta'' watching)) ''alphabeta'' = None
   \<and> fst (stop_monitoring ''alphabeta'' (snd (stop_monitoring ''alphabeta'' watching))) =
       Return (Json 400 [(''message'', ''Monitoring not found for this public key'')])"
proof -
  have n: "''alphabeta'' \<notin> set Object_prototype_keys" by (simp add: Object_prototype_keys_def)
  have e: "monitoringTasks initial_state ''alphabeta'' = None" by (simp add: initial_state_def)
  have m: "monitoringTasks watching ''alphabeta'' =
     Some \<lparr>connection = 0, subscriptionId = 0, tokenMintAddress = None,
           compromisedWallet = ''alphabeta'', newSecureWalletPublicKey = ''Secure''\<rparr>"
    by (simp add: watching_eq)
  have l: "listeners watching = [\<lparr>listener_connection = 0, listener_id = 0,
             listener_account = ''alphabeta'', listener_kind = AccountChange\<rparr>]"
    and c: "gateway_calls watching = [OnAccountChange 0 ''alphabeta'']"
    by (simp_all add: watching_eq initial_state_def)
  from stop_monitoring_contract [OF n, of initial_state] stop_monitoring_contract [OF n, of watching]
    n e m l c
  show ?thesis by (simp add: truthy_def remove_listener_def)
qed

text \<open>
  Two starts for the native balance of the same address, with no stop between them,
  leave two live listeners on that address: the entry of the first is overwritten and its
  listener is never removed.
\<close>

theorem restart_leaks_subscription:
  "length (active_subscriptions ''alphabeta'' (run sample_gateway [first_start, second_start] initial_state)) = 2"
  by (simp add: first_start_def second_start_def active_subscriptions_def route_defs truthy_def
        Let_def sample_defs)

text \<open>
  As long as no start hits the address \<open>a\<close> while the registry holds it, the registry
  accounts for every live listener on \<open>a\<close> (\<open>registry_inv\<close>), whatever happens to other
  addresses, and then \<open>a\<close> has at most one of them.
\<close>

lemma filter_at_most_one:
  "distinct (map f xs) \<Longrightarrow> (\<forall>x \<in> set xs. P x \<longrightarrow> f x = c) \<Longrightarrow> length (filter P xs) \<le> 1"
proof (induction xs)
  case Nil
  then show ?case by simp
next
  case (Cons x xs)
  show ?case
  proof (cases "P x")
    case False
    with Cons show ?thesis by simp
  next
    case True
    with Cons.prems have fx: "f x = c" by simp
    have "filter P xs = []"
    proof (rule ccontr)
      assume "filter P xs \<noteq> []"
      then obtain y where y: "y \<in> set xs" "P y" by (auto simp: filter_empty_conv)
      with Cons.prems have "f y = c" by simp
      with fx have "f x = f y" by simp
      then have "f x \<in> f ` set xs" using y(1) by (rule image_eqI)
      with Cons.prems(1) show False by simp
    qed
    with True show ?thesis by simp
  qed
qed

lemma inv_initial: "registry_inv a initial_state"
  by (simp add: registry_inv_def initial_state_def)

lemma inv_at_most_one:
  assumes "registry_inv a s"
  shows "length (active_subscriptions a s) \<le> 1"
proof (cases "monitoringTasks s a")
  case None
  with assms have "filter (\<lambda>l. listener_account l = a) (listeners s) = []"
    by (auto simp: registry_inv_def filter_empty_conv)
  then show ?thesis by (simp add: active_subscriptions_def)
next
  case (Some t)
  with assms have "\<forall>l \<in> set (listeners s). listener_account l = a \<longrightarrow> listener_connection l = connection t"
    by (auto simp: registry_inv_def)
  moreover from assms have "distinct (map listener_connection (listeners s))"
    by (simp add: registry_inv_def)
  ultimately show ?thesis
    unfolding active_subscriptions_def by (rule filter_at_most_one [rotated])
qed

lemma inv_start:
  assumes inv: "registry_inv a s"
    and fresh: "not_restart_of a g (StartMonitoring seed secureWalletPublicKey network tokenMint) s"
  shows "registry_inv a (snd (start_monitoring g seed secureWalletPublicKey network tokenMint s))"
proof (cases "derive_keypair g seed")
  case (Inl e)
  with inv show ?thesis by (simp add: registry_inv_def route_defs)
next
  case (Inr wallet)
  show ?thesis
  proof (cases "new_PublicKey g secureWalletPublicKey")
    case (Inl e)
    with Inr inv show ?thesis by (simp add: registry_inv_def route_defs)
  next
    case dest: (Inr dest)
    show ?thesis
    proof (cases "clusterApiUrl g network")
      case (Inl e)
      with Inr dest inv show ?thesis by (simp add: registry_inv_def route_defs)
    next
      case url: (Inr url)
      from inv have lt: "\<forall>l \<in> set (listeners s). listener_connection l < connections s"
        by (simp add: registry_inv_def)
      then have notin: "connections s \<notin> listener_connection ` set (listeners s)" by auto
      show ?thesis
      proof (cases "wallet = a")
        case True
        with fresh Inr have none: "monitoringTasks s a = None" by (simp add: not_restart_of_def)
        with inv have nol: "\<forall>l \<in> set (listeners s). listener_account l \<noteq> a"
          by (auto simp: registry_inv_def)
        from True Inr dest url inv nol lt notin show ?thesis
          by (auto simp: registry_inv_def route_defs Let_def less_Suc_eq)
      next
        case False
        with Inr dest url inv lt notin show ?thesis
          by (auto simp: registry_inv_def route_defs Let_def less_Suc_eq)
      qed
    qed
  qed
qed

lemma inv_stop:
  assumes inv: "registry_inv a s"
  shows "registry_inv a (snd (stop_monitoring publicKey s))"
proof (cases "monitoringTasks s publicKey")
  case None
  with inv show ?thesis by (simp add: stop_monitoring_def)
next
  case (Some t)
  from inv have d: "distinct (map listener_connection (listeners s))" by (simp add: registry_inv_def)
  have sub: "set (remove_listener (connection t) (subscriptionId t) (listeners s)) \<subseteq> set (listeners s)"
    by (auto simp: remove_listener_def)
  have d': "distinct (map listener_connection (remove_listener (connection t) (subscriptionId t) (listeners s)))"
    using d by (simp add: remove_listener_def distinct_map_filter)
  show ?thesis
  proof (cases "publicKey = a")
    case True
    have gone: "\<forall>l \<in> set (remove_listener (connection t) (subscriptionId t) (listeners s)).
                  listener_account l \<noteq> a"
      using inv Some True by (auto simp: registry_inv_def remove_listener_def)
    from inv Some gone sub d' True show ?thesis
      by (auto simp: registry_inv_def route_defs Let_def)
  next
    case False
    from inv Some sub d' False show ?thesis
      by (auto simp: registry_inv_def route_defs Let_def)
  qed
qed

lemma inv_run: "registry_inv a s \<Longrightarrow> no_restarts_of a g rs s \<Longrightarrow> registry_inv a (run g rs s)"
proof (induction rs arbitrary: s)
  case Nil
  then show ?case by simp
next
  case (Cons r rs)
  from Cons.prems have nr: "not_restart_of a g r s"
    and rest: "no_restarts_of a g rs (snd (handle_request g r s))"
    by simp_all
  have "registry_inv a (snd (handle_request g r s))"
  proof (cases r)
    case (StartMonitoring seed k n m)
    with Cons.prems(1) nr show ?thesis by (simp add: handle_request_def inv_start)
  next
    case (StopMonitoring pk)
    with Cons.prems(1) show ?thesis by (simp add: handle_request_def inv_stop)
  qed
  from Cons.IH [OF this rest] show ?case by simp
qed

text \<open>
  C7 (amended). For every address \<open>a\<close> and every state reached from the initial state by
  a sequence of start and stop requests in which no start is issued for \<open>a\<close> while the
  registry holds \<open>a\<close>, there is at most one live gateway subscription on \<open>a\<close>; restarts
  of other addresses do not matter.
\<close>

theorem one_subscription_unless_restarted:
  "no_restarts_of a g rs initial_state \<Longrightarrow> length (active_subscriptions a (run g rs initial_state)) \<le> 1"
  by (rule inv_at_most_one [OF inv_run [OF inv_initial]])

theorem one_subscription_unless_restarted_witness:
  "no_restarts_of ''alphabeta'' sample_gateway
     [start_gamma, first_start, start_gamma, StopMonitoring ''alphabeta'', second_start] initial_state \<and>
   length (active_subscriptions ''alphabeta''
     (run sample_gateway
        [start_gamma, first_start, start_gamma, StopMonitoring ''alphabeta'', second_start]
        initial_state)) = 1 \<and>
   length (active_subscriptions ''gamma''
     (run sample_gateway
        [start_gamma, first_start, start_gamma, StopMonitoring ''alphabeta'', second_start]
        initial_state)) = 2"
proof -
  let ?rs = "[start_gamma, first_start, start_gamma, StopMonitoring ''alphabeta'', second_start]"
  have n: "no_restarts_of ''alphabeta'' sample_gateway ?rs initial_state"
    by (simp add: first_start_def second_start_def start_gamma_def not_restart_of_def route_defs
          truthy_def Let_def sample_defs)
  have l: "length (active_subscriptions ''alphabeta'' (run sample_gateway ?rs initial_state)) \<noteq> 0"
    by (simp add: first_start_def second_start_def start_gamma_def active_subscriptions_def
          remove_listener_def route_defs truthy_def Let_def sample_defs)
  have g: "length (active_subscriptions ''gamma'' (run sample_gateway ?rs initial_state)) = 2"
    by (simp add: first_start_def second_start_def start_gamma_def active_subscriptions_def
          remove_listener_def route_defs truthy_def Let_def sample_defs)
  have "length (active_subscriptions ''alphabeta'' (run sample_gateway ?rs initial_state)) \<le> 1"
    using n by (rule one_subscription_unless_restarted)
  with l have "length (active_subscriptions ''alphabeta'' (run sample_gateway ?rs initial_state)) = 1"
    by linarith
  with n g show ?thesis by simp
qed

end
